theory Spec2Isabelle
  imports Main
begin

section \<open>Time values\<close>

text \<open>
  A JavaScript \<open>Date\<close> holds a time value: the milliseconds since 1970-01-01T00:00:00Z, an
  integer of magnitude at most 8.64e15, or NaN (an "Invalid Date"). Every way of making a
  \<open>Date\<close> clips: a time value beyond that range becomes NaN. A time value in range is an
  \<open>instant\<close>; a \<open>Date\<close> object is an \<open>instant option\<close>, with \<open>None\<close> for Invalid Date.

  Minute counts (\<open>durationMin\<close>, the entries of \<open>RULES\<close>) are the integers that \<open>parseInt\<close>
  produced; the NaN that \<open>parseInt\<close> gives for a string without digits is outside the model.
  The arithmetic on them is exact here. In the source it is double arithmetic, which is
  exact whenever the result is a time value in range, and gives a value out of range
  whenever the exact result is out of range.

  The functions modelled are those of the current \<open>server.js\<close> (the second, longer version
  in the file): \<open>normalizeRange\<close>, \<open>withinWorkHours\<close> and \<open>computeAvailability\<close>.
\<close>

type_synonym instant = int
type_synonym Date = "instant option"

definition inDateRange :: "int \<Rightarrow> bool" where
  "inDateRange t = (- 8640000000000000 \<le> t \<and> t \<le> 8640000000000000)"

definition timeClip :: "int \<Rightarrow> Date" where
  "timeClip t = (if inDateRange t then Some t else None)"

definition mkDate :: "Date \<Rightarrow> Date" where
  "mkDate d = (case d of None \<Rightarrow> None | Some t \<Rightarrow> timeClip t)"

datatype error =
    InvalidTimeValue   \<comment> \<open>the RangeError of \<open>toISOString\<close> on an Invalid Date\<close>
  | ParamsRequired     \<comment> \<open>\<open>Error('Query params "start" and "end" are required')\<close>\<close>
  | InvalidStartEnd    \<comment> \<open>\<open>Error('Invalid start/end; use YYYY-MM-DD or ISO datetime')\<close>\<close>
  | ProviderFailure    \<comment> \<open>whatever the calendar client throws inside \<open>freeBusy\<close>\<close>

section \<open>The libraries the server calls\<close>

text \<open>
  The server is written against the \<open>Date\<close> built-in, date-fns and date-fns-tz. Their code
  is not part of the repository, so the functions the server calls are parameters of the
  model, collected in one record:
  \<^item> \<open>Date_parse\<close>: \<open>new Date(s)\<close> for a string \<open>s\<close>;
  \<^item> \<open>local_setHours\<close>, \<open>local_setMinutes\<close>, \<open>local_setSeconds\<close>: date-fns \<open>setHours\<close>,
    \<open>setMinutes\<close>, \<open>setSeconds\<close> on a valid date (they set a field of the wall clock of the
    zone the server process runs in);
  \<^item> \<open>local_getDay\<close>, \<open>local_getHours\<close>: \<open>Date.prototype.getDay\<close> and \<open>getHours\<close>;
  \<^item> \<open>tz_zonedTimeToUtc\<close>, \<open>tz_utcToZonedTime\<close>: the date-fns-tz conversions on a valid
    date; \<open>zonedTimeToUtc\<close> gives an Invalid Date for a zone name it does not know;
  \<^item> \<open>fns_parseISO\<close>: date-fns \<open>parseISO\<close>, Invalid Date when the string is not ISO 8601.
\<close>

record jslib =
  Date_parse :: "string \<Rightarrow> Date"
  local_setHours :: "instant \<Rightarrow> int \<Rightarrow> int"
  local_setMinutes :: "instant \<Rightarrow> int \<Rightarrow> int"
  local_setSeconds :: "instant \<Rightarrow> int \<Rightarrow> int"
  local_getDay :: "instant \<Rightarrow> int"
  local_getHours :: "instant \<Rightarrow> int"
  tz_zonedTimeToUtc :: "instant \<Rightarrow> string \<Rightarrow> Date"
  tz_utcToZonedTime :: "instant \<Rightarrow> string \<Rightarrow> int"
  fns_parseISO :: "string \<Rightarrow> Date"

text \<open>
  The functions as the server calls them, on \<open>Date\<close> objects. Whatever time value a library
  function computes, the \<open>Date\<close> it returns is clipped. The setters hand an Invalid Date
  on. So does \<open>zonedTimeToUtc\<close> here: in the library it either returns an Invalid Date, on
  which the \<open>toISOString\<close> that follows in the same statement throws a RangeError, or
  throws that RangeError itself; the caller sees the same failure at the same place.
\<close>

definition new_Date :: "jslib \<Rightarrow> string \<Rightarrow> Date" where
  "new_Date L s = mkDate (Date_parse L s)"

definition setHours :: "jslib \<Rightarrow> Date \<Rightarrow> int \<Rightarrow> Date" where
  "setHours L d h = (case d of None \<Rightarrow> None | Some t \<Rightarrow> timeClip (local_setHours L t h))"

definition setMinutes :: "jslib \<Rightarrow> Date \<Rightarrow> int \<Rightarrow> Date" where
  "setMinutes L d m = (case d of None \<Rightarrow> None | Some t \<Rightarrow> timeClip (local_setMinutes L t m))"

definition setSeconds :: "jslib \<Rightarrow> Date \<Rightarrow> int \<Rightarrow> Date" where
  "setSeconds L d s = (case d of None \<Rightarrow> None | Some t \<Rightarrow> timeClip (local_setSeconds L t s))"

definition zonedTimeToUtc :: "jslib \<Rightarrow> Date \<Rightarrow> string \<Rightarrow> Date" where
  "zonedTimeToUtc L d tz =
     (case d of None \<Rightarrow> None | Some t \<Rightarrow> mkDate (tz_zonedTimeToUtc L t tz))"

definition utcToZonedTime :: "jslib \<Rightarrow> instant \<Rightarrow> string \<Rightarrow> Date" where
  "utcToZonedTime L t tz = timeClip (tz_utcToZonedTime L t tz)"

definition parseISO :: "jslib \<Rightarrow> string \<Rightarrow> Date" where
  "parseISO L s = mkDate (fns_parseISO L s)"

definition isValid :: "Date \<Rightarrow> bool" where
  "isValid d = (d \<noteq> None)"

text \<open>
  \<open>toISOString\<close> throws a RangeError on an Invalid Date. The ISO string of a valid date
  names its instant and nothing else, so the model keeps the instant.
\<close>

definition toISOString :: "Date \<Rightarrow> error + instant" where
  "toISOString d = (case d of None \<Rightarrow> Inl InvalidTimeValue | Some t \<Rightarrow> Inr t)"

text \<open>
  date-fns \<open>addMinutes\<close>: a new \<open>Date\<close> at the time value plus the amount times 60000
  milliseconds. An Invalid Date stays invalid, and a sum beyond the range of \<open>Date\<close> is an
  Invalid Date.
\<close>

definition addMinutes :: "Date \<Rightarrow> int \<Rightarrow> Date" where
  "addMinutes d amount = (case d of None \<Rightarrow> None | Some t \<Rightarrow> timeClip (t + amount * 60000))"

text \<open>
  \<open>a < b\<close> and \<open>a > b\<close> on two dates compare the time values; a comparison with NaN is
  false.
\<close>

definition date_lt :: "Date \<Rightarrow> Date \<Rightarrow> bool" where
  "date_lt a b = (case (a, b) of (Some x, Some y) \<Rightarrow> x < y | _ \<Rightarrow> False)"

definition date_gt :: "Date \<Rightarrow> Date \<Rightarrow> bool" where
  "date_gt a b = (case (a, b) of (Some x, Some y) \<Rightarrow> x > y | _ \<Rightarrow> False)"

section \<open>Configuration and provider data\<close>

text \<open>The \<open>RULES\<close> object, read from the environment once when the server starts.\<close>

record rules =
  WORK_DAYS :: "int list"
  WORK_START_HOUR :: int
  WORK_END_HOUR :: int
  SLOT_INTERVAL_MIN :: int
  BUFFER_MIN :: int
  MIN_NOTICE_MIN :: int

text \<open>
  One entry of the free/busy answer: \<open>{ start, end }\<close>, two date-time strings that the scan
  turns into dates with \<open>new Date\<close>.
\<close>

record busy =
  busy_start :: string
  busy_end :: string

section \<open>The slot scan\<close>

text \<open>
  \<open>withinWorkHours(date, tz)\<close>, applied to a valid date (the loop calls it with a cursor
  that has passed the \<open>while\<close> test). Should \<open>utcToZonedTime\<close> give an Invalid Date, \<open>getDay\<close> is
  NaN, which \<open>WORK_DAYS\<close> does not include.
\<close>

definition withinWorkHours :: "jslib \<Rightarrow> rules \<Rightarrow> instant \<Rightarrow> string \<Rightarrow> bool" where
  "withinWorkHours L R date tz =
     (case utcToZonedTime L date tz of
        None \<Rightarrow> False
      | Some local \<Rightarrow>
          if \<not> (local_getDay L local \<in> set (WORK_DAYS R)) then False
          else (let h = local_getHours L local in
                h \<ge> WORK_START_HOUR R \<and> h < WORK_END_HOUR R))"

text \<open>
  The \<open>busy.some(...)\<close> test of one cursor position: the padded slot against each busy
  entry, with the two strict comparisons of the source. The cursor is a valid date; the
  slot end, and with it the padded end, may be an Invalid Date.
\<close>

definition overlaps :: "jslib \<Rightarrow> rules \<Rightarrow> busy list \<Rightarrow> instant \<Rightarrow> Date \<Rightarrow> bool" where
  "overlaps L R busyList cursorUtc slotEnd =
     (let slotStartBuf = addMinutes (Some cursorUtc) (- BUFFER_MIN R);
          slotEndBuf = addMinutes slotEnd (BUFFER_MIN R)
      in list_ex (\<lambda>b.
           let bStart = new_Date L (busy_start b);
               bEnd = new_Date L (busy_end b)
           in date_lt slotStartBuf bEnd \<and> date_gt slotEndBuf bStart) busyList)"

text \<open>
  The \<open>while\<close> loop of \<open>computeAvailability\<close>, with the cursor and the \<open>starts\<close> array as its
  state; the exits and the two ways round the loop are in the order of the source. The
  cursor is a \<open>Date\<close>: once \<open>addMinutes\<close> has made it invalid the \<open>while\<close> test is false. Inside
  the body the cursor is valid, the slot end need not be, and then neither the \<open>break\<close>
  test nor the busy test can be true. The loop has no bound of its own: with a slot
  interval of zero it never leaves a window it has entered, which is the value \<open>None\<close>
  here.
\<close>

partial_function (option) scan ::
  "jslib \<Rightarrow> rules \<Rightarrow> string \<Rightarrow> int \<Rightarrow> instant \<Rightarrow> busy list \<Rightarrow> instant \<Rightarrow> Date \<Rightarrow>
   instant list \<Rightarrow> instant list option"
where
  "scan L R tz durationMin nowUtc busyList endUtc cursorUtc starts =
     (case cursorUtc of
        None \<Rightarrow> Some starts
      | Some c \<Rightarrow>
          if c < endUtc then
            (let slotEnd = addMinutes (Some c) durationMin in
             if date_gt slotEnd (Some endUtc) then Some starts
             else if date_gt (addMinutes (Some nowUtc) (MIN_NOTICE_MIN R)) (Some c) then
               scan L R tz durationMin nowUtc busyList endUtc
                 (addMinutes (Some c) (SLOT_INTERVAL_MIN R)) starts
             else
               scan L R tz durationMin nowUtc busyList endUtc
                 (addMinutes (Some c) (SLOT_INTERVAL_MIN R))
                 (if \<not> overlaps L R busyList c slotEnd \<and> withinWorkHours L R c tz
                  then starts @ [c] else starts))
          else Some starts)"

declare scan.simps [code]

text \<open>
  The three local dates at the head of \<open>computeAvailability\<close>.
\<close>

definition dayStartLocal :: "jslib \<Rightarrow> string \<Rightarrow> Date" where
  "dayStartLocal L date = setSeconds L (setMinutes L (setHours L (new_Date L date) 0) 0) 0"

definition workStartLocal :: "jslib \<Rightarrow> rules \<Rightarrow> string \<Rightarrow> Date" where
  "workStartLocal L R date = setHours L (dayStartLocal L date) (WORK_START_HOUR R)"

definition workEndLocal :: "jslib \<Rightarrow> rules \<Rightarrow> string \<Rightarrow> Date" where
  "workEndLocal L R date = setHours L (dayStartLocal L date) (WORK_END_HOUR R)"

text \<open>
  \<open>computeAvailability({ date, durationMin, tz })\<close>. The clock reading \<open>new Date()\<close> and the
  provider call \<open>freeBusy(timeMin, timeMax)\<close> are the two things it takes from outside; they
  are the arguments \<open>nowUtc\<close> and \<open>freeBusy\<close>. The two \<open>toISOString\<close> calls come first and
  throw on an Invalid Date; the cursor then starts at the instant \<open>timeMin\<close> names and the
  loop ends at the instant \<open>timeMax\<close> names (the source computes both a second time, with
  the same calls). A candidate \<open>{ startISO }\<close> is its instant. The outer \<open>option\<close> is
  \<open>None\<close> when the loop never returns.
\<close>

definition computeAvailability ::
  "jslib \<Rightarrow> rules \<Rightarrow> instant \<Rightarrow> (instant \<Rightarrow> instant \<Rightarrow> error + busy list) \<Rightarrow>
   string \<Rightarrow> int \<Rightarrow> string \<Rightarrow> (error + instant list) option"
where
  "computeAvailability L R nowUtc freeBusy date durationMin tz =
     (case toISOString (zonedTimeToUtc L (workStartLocal L R date) tz) of
        Inl e \<Rightarrow> Some (Inl e)
      | Inr timeMin \<Rightarrow>
     (case toISOString (zonedTimeToUtc L (workEndLocal L R date) tz) of
        Inl e \<Rightarrow> Some (Inl e)
      | Inr timeMax \<Rightarrow>
     (case freeBusy timeMin timeMax of
        Inl e \<Rightarrow> Some (Inl e)
      | Inr busyList \<Rightarrow>
          map_option Inr
            (scan L R tz durationMin nowUtc busyList timeMax (Some timeMin) []))))"

section \<open>The range normaliser\<close>

text \<open>
  The test \<open>isDateOnly\<close>, the regular expression \<open>/^\d{4}-\d{2}-\d{2}$/\<close>: ten characters,
  ASCII digits with a hyphen in the fifth and in the eighth place.
\<close>

definition isDigit :: "char \<Rightarrow> bool" where
  "isDigit c = (c \<in> set ''0123456789'')"

definition isDateOnly :: "string \<Rightarrow> bool" where
  "isDateOnly s =
     list_all2 (\<lambda>dash c. if dash then c = CHR ''-'' else isDigit c)
       [False, False, False, False, True, False, False, True, False, False] s"

record timeRange =
  timeMin :: instant
  timeMax :: instant

text \<open>
  \<open>normalizeRange({ start, end, tz })\<close>. A query parameter that is absent and one that is
  the empty string are both falsy; both are the empty string here.
\<close>

definition normalizeRange :: "jslib \<Rightarrow> string \<Rightarrow> string \<Rightarrow> string \<Rightarrow> error + timeRange" where
  "normalizeRange L start end' tz =
     (if start = [] \<or> end' = [] then Inl ParamsRequired
      else if isDateOnly start \<and> isDateOnly end' then
        (let startUtc = zonedTimeToUtc L (new_Date L (start @ ''T00:00:00'')) tz;
             endUtc = zonedTimeToUtc L (new_Date L (end' @ ''T23:59:59.999'')) tz
         in case toISOString startUtc of
              Inl e \<Rightarrow> Inl e
            | Inr tmin \<Rightarrow>
           (case toISOString endUtc of
              Inl e \<Rightarrow> Inl e
            | Inr tmax \<Rightarrow> Inr \<lparr>timeMin = tmin, timeMax = tmax\<rparr>))
      else
        (let s = parseISO L start; e = parseISO L end' in
         if \<not> isValid s \<or> \<not> isValid e then Inl InvalidStartEnd
         else Inr \<lparr>timeMin = the s, timeMax = the e\<rparr>))"

section \<open>The grid the scan walks\<close>

text \<open>
  The cursor positions at which the loop body runs to its end, written as a list: from a
  starting position in steps of \<open>step\<close>, as long as the \<open>while\<close> test holds and the \<open>break\<close>
  test does not. It is used to describe what \<open>scan\<close> returns.
\<close>

function gridFrom :: "int \<Rightarrow> instant \<Rightarrow> int \<Rightarrow> instant \<Rightarrow> instant list" where
  "gridFrom step endUtc durationMin c =
     (if 0 < step \<and> c < endUtc \<and> \<not> date_gt (addMinutes (Some c) durationMin) (Some endUtc)
      then c # gridFrom step endUtc durationMin (c + step) else [])"
  by pat_completeness auto
termination
  by (relation "measure (\<lambda>(step, endUtc, durationMin, c). nat (endUtc - c))") auto

text \<open>The three tests a visited position has to pass to be pushed onto \<open>starts\<close>.\<close>

definition accepted ::
  "jslib \<Rightarrow> rules \<Rightarrow> string \<Rightarrow> int \<Rightarrow> instant \<Rightarrow> busy list \<Rightarrow> instant \<Rightarrow> bool"
where
  "accepted L R tz durationMin nowUtc busyList c =
     (\<not> date_gt (addMinutes (Some nowUtc) (MIN_NOTICE_MIN R)) (Some c)
      \<and> \<not> overlaps L R busyList c (addMinutes (Some c) durationMin)
      \<and> withinWorkHours L R c tz)"

section \<open>A concrete library: zones with a fixed offset\<close>

text \<open>
  To run the model an instance of the library record is needed. This one covers zones that
  keep one offset from UTC (a zone between two of its daylight-saving changes is one):
  \<open>sys\<close> is the offset, in minutes east of UTC, of the zone the server process runs in,
  and \<open>zone tz\<close> the offset of the IANA zone \<open>tz\<close>. The wall clock of an instant \<open>t\<close> in
  a zone with offset \<open>z\<close> is \<open>t + z * 60000\<close>, read as a date and time of day.
  \<^item> \<open>Date.prototype.setHours\<close> and its siblings replace one field of the process zone's
    wall clock and keep the smaller fields; \<open>getDay\<close> and \<open>getHours\<close> read that wall clock
    (1970-01-01 was a Thursday, day 4).
  \<^item> \<open>zonedTimeToUtc(d, tz)\<close> reads the fields of \<open>d\<close> with the process-zone getters and
    returns the instant at which the zone \<open>tz\<close> shows these fields.
  \<^item> \<open>utcToZonedTime(d, tz)\<close> returns the date whose process-zone fields are what the zone
    \<open>tz\<close> shows at \<open>d\<close>.
\<close>

definition fixedZones ::
  "int \<Rightarrow> (string \<Rightarrow> int) \<Rightarrow> (string \<Rightarrow> Date) \<Rightarrow> (string \<Rightarrow> Date) \<Rightarrow> jslib"
where
  "fixedZones sys zone dateTable isoTable =
     \<lparr> Date_parse = dateTable,
       local_setHours = (\<lambda>t h. let w = t + sys * 60000 in
          w - w mod 86400000 + h * 3600000 + w mod 3600000 - sys * 60000),
       local_setMinutes = (\<lambda>t m. let w = t + sys * 60000 in
          w - w mod 3600000 + m * 60000 + w mod 60000 - sys * 60000),
       local_setSeconds = (\<lambda>t s. let w = t + sys * 60000 in
          w - w mod 60000 + s * 1000 + w mod 1000 - sys * 60000),
       local_getDay = (\<lambda>t. ((t + sys * 60000) div 86400000 + 4) mod 7),
       local_getHours = (\<lambda>t. ((t + sys * 60000) mod 86400000) div 3600000),
       tz_zonedTimeToUtc = (\<lambda>t tz. Some (t + sys * 60000 - zone tz * 60000)),
       tz_utcToZonedTime = (\<lambda>t tz. t + zone tz * 60000 - sys * 60000),
       fns_parseISO = isoTable \<rparr>"

text \<open>
  The two parsers, for the strings in use. A string of the shape \<open>YYYY-MM-DD\<close> is read from
  its digits. \<open>new Date\<close> in Node takes it as midnight UTC, accepts any day from 1 to 31 in
  any month and counts the days on from the first of the month, so that 2025-04-31 is
  2025-05-01; followed by \<open>T00:00:00\<close> or \<open>T23:59:59.999\<close> the same date is a local time.
  \<open>parseISO\<close> takes a date-only string as local midnight and rejects a day the month does
  not have. Date-times with an explicit offset are a table, the same for both parsers.
\<close>

definition digitVal :: "char \<Rightarrow> int" where
  "digitVal c = int (of_char c) - 48"

definition decimal :: "string \<Rightarrow> int" where
  "decimal s = foldl (\<lambda>a c. 10 * a + digitVal c) 0 s"

text \<open>The number of days from 1970-01-01 to day \<open>d\<close> counted from the start of month \<open>m\<close> of
  year \<open>y\<close> in the Gregorian calendar.\<close>

definition daysFromCivil :: "int \<Rightarrow> int \<Rightarrow> int \<Rightarrow> int" where
  "daysFromCivil y m d =
     (let y' = (if m \<le> 2 then y - 1 else y);
          era = y' div 400;
          yoe = y' - era * 400;
          mp = (m + 9) mod 12;
          doy = (153 * mp + 2) div 5 + d - 1;
          doe = yoe * 365 + yoe div 4 - yoe div 100 + doy
      in era * 146097 + doe - 719468)"

definition daysInMonth :: "int \<Rightarrow> int \<Rightarrow> int" where
  "daysInMonth y m =
     (if m = 2 then (if (y mod 4 = 0 \<and> y mod 100 \<noteq> 0) \<or> y mod 400 = 0 then 29 else 28)
      else if m = 4 \<or> m = 6 \<or> m = 9 \<or> m = 11 then 30 else 31)"

definition dateOnlyUTC :: "int \<Rightarrow> string \<Rightarrow> Date" where
  "dateOnlyUTC maxDay s =
     (let y = decimal (take 4 s); m = decimal (take 2 (drop 5 s)); d = decimal (drop 8 s)
      in if 1 \<le> m \<and> m \<le> 12 \<and> 1 \<le> d \<and> d \<le> min maxDay 31
         then Some (daysFromCivil y m d * 86400000) else None)"

definition knownDateTimes :: "string \<Rightarrow> Date" where
  "knownDateTimes = map_of
     [(''2025-08-11T15:00:00Z'', 1754924400000),
      (''2025-08-11T15:50:00Z'', 1754927400000),
      (''2025-08-11T09:00:00-05:00'', 1754920800000),
      (''2025-08-12T17:00:00-05:00'', 1755036000000)]"

definition nodeDate :: "int \<Rightarrow> string \<Rightarrow> Date" where
  "nodeDate sys s =
     (if isDateOnly s then dateOnlyUTC 31 s
      else if isDateOnly (take 10 s) \<and> drop 10 s = ''T00:00:00''
        then map_option (\<lambda>t. t - sys * 60000) (dateOnlyUTC 31 (take 10 s))
      else if isDateOnly (take 10 s) \<and> drop 10 s = ''T23:59:59.999''
        then map_option (\<lambda>t. t + 86399999 - sys * 60000) (dateOnlyUTC 31 (take 10 s))
      else knownDateTimes s)"

definition fnsParseISO :: "int \<Rightarrow> string \<Rightarrow> Date" where
  "fnsParseISO sys s =
     (if isDateOnly s
      then map_option (\<lambda>t. t - sys * 60000)
             (dateOnlyUTC (daysInMonth (decimal (take 4 s)) (decimal (take 2 (drop 5 s)))) s)
      else knownDateTimes s)"

text \<open>The defaults of \<open>RULES\<close>: Monday to Friday, 9 to 17, a 30-minute grid, a 10-minute
  buffer, 120 minutes of notice.\<close>

definition defaultRules :: rules where
  "defaultRules =
     \<lparr> WORK_DAYS = [1, 2, 3, 4, 5], WORK_START_HOUR = 9, WORK_END_HOUR = 17,
       SLOT_INTERVAL_MIN = 30, BUFFER_MIN = 10, MIN_NOTICE_MIN = 120 \<rparr>"

text \<open>Chicago from March to November 2025 is five hours behind UTC.\<close>

definition summerZones :: "string \<Rightarrow> int" where
  "summerZones tz = (if tz = ''America/Chicago'' then - 300 else 0)"

text \<open>A server whose process runs in UTC, and one whose process runs in Chicago.\<close>

definition serverUTC :: jslib where
  "serverUTC = fixedZones 0 summerZones (nodeDate 0) (fnsParseISO 0)"

definition serverChicago :: jslib where
  "serverChicago = fixedZones (- 300) summerZones (nodeDate (- 300)) (fnsParseISO (- 300))"

text \<open>Two providers: a free calendar, and one meeting from 10:00 to 10:50 Chicago time on
  2025-08-11.\<close>

definition noBusy :: "instant \<Rightarrow> instant \<Rightarrow> error + busy list" where
  "noBusy tmin tmax = Inr []"

definition oneMeeting :: "instant \<Rightarrow> instant \<Rightarrow> error + busy list" where
  "oneMeeting tmin tmax =
     Inr [\<lparr> busy_start = ''2025-08-11T15:00:00Z'', busy_end = ''2025-08-11T15:50:00Z'' \<rparr>]"

text \<open>A provider that knows the meeting only when asked about the window of 2025-08-11,
  and fails for any other window.\<close>

definition mondayOnly :: "instant \<Rightarrow> instant \<Rightarrow> error + busy list" where
  "mondayOnly tmin tmax =
     (if tmin = 1754920800000 \<and> tmax = 1754949600000
      then Inr [\<lparr> busy_start = ''2025-08-11T15:00:00Z'', busy_end = ''2025-08-11T15:50:00Z'' \<rparr>]
      else Inl ProviderFailure)"

section \<open>What the scan returns\<close>

declare gridFrom.simps [simp del]

text \<open>Adding minutes, and comparing the result, in numbers.\<close>

lemma addMinutes_Some: "addMinutes (Some t) amount = timeClip (t + amount * 60000)"
  by (simp add: addMinutes_def)

lemma timeClip_eq_Some: "timeClip t = Some u \<longleftrightarrow> inDateRange t \<and> u = t"
  by (auto simp: timeClip_def)

lemma date_gt_clip: "date_gt (timeClip t) (Some e) \<longleftrightarrow> inDateRange t \<and> e < t"
  by (simp add: timeClip_def date_gt_def)

lemma date_lt_clip: "date_lt (timeClip t) (Some e) \<longleftrightarrow> inDateRange t \<and> t < e"
  by (simp add: timeClip_def date_lt_def)

lemma no_break: "t + durationMin * 60000 \<le> e \<Longrightarrow> \<not> date_gt (addMinutes (Some t) durationMin) (Some e)"
  by (simp add: addMinutes_Some date_gt_clip)

lemma mkDate_range: "mkDate d = Some t \<Longrightarrow> inDateRange t"
  by (auto simp: mkDate_def timeClip_def split: option.splits if_splits)

lemma zonedTimeToUtc_range: "zonedTimeToUtc L d tz = Some t \<Longrightarrow> inDateRange t"
  by (auto simp: zonedTimeToUtc_def dest: mkDate_range split: option.splits)

text \<open>
  With a positive slot interval the loop returns: the \<open>starts\<close> it was entered with, followed
  by the grid positions from the cursor on that pass the three checks. (The window end is a
  time value in range, so a cursor that \<open>addMinutes\<close> pushed out of range had passed it.)
\<close>

lemma scan_None: "scan L R tz durationMin nowUtc busyList endUtc None acc = Some acc"
  by (subst scan.simps) simp

lemma scan_grid:
  assumes iv: "0 < SLOT_INTERVAL_MIN R"
    and er: "endUtc \<le> 8640000000000000"
    and cr: "- 8640000000000000 \<le> c"
  shows "scan L R tz durationMin nowUtc busyList endUtc (Some c) acc =
         Some (acc @ filter (accepted L R tz durationMin nowUtc busyList)
                 (gridFrom (SLOT_INTERVAL_MIN R * 60000) endUtc durationMin c))"
  using er cr
proof (induction "SLOT_INTERVAL_MIN R * 60000" endUtc durationMin c arbitrary: acc
       rule: gridFrom.induct)
  case (1 endUtc durationMin c)
  let ?step = "SLOT_INTERVAL_MIN R * 60000"
  have st: "0 < ?step" using iv by simp
  let ?cont = "c < endUtc \<and> \<not> date_gt (addMinutes (Some c) durationMin) (Some endUtc)"
  show ?case
  proof (cases ?cont)
    case False
    then have g: "gridFrom ?step endUtc durationMin c = []"
      by (subst gridFrom.simps) auto
    from False show ?thesis
      unfolding g by (subst scan.simps) (auto simp: Let_def)
  next
    case True
    have g: "gridFrom ?step endUtc durationMin c = c # gridFrom ?step endUtc durationMin (c + ?step)"
      using True st by (subst gridFrom.simps) simp
    have nxt: "scan L R tz durationMin nowUtc busyList endUtc
                 (addMinutes (Some c) (SLOT_INTERVAL_MIN R)) acc' =
               Some (acc' @ filter (accepted L R tz durationMin nowUtc busyList)
                 (gridFrom ?step endUtc durationMin (c + ?step)))" for acc'
    proof (cases "inDateRange (c + ?step)")
      case True
      then have "addMinutes (Some c) (SLOT_INTERVAL_MIN R) = Some (c + ?step)"
        by (simp add: addMinutes_Some timeClip_def)
      moreover have "- 8640000000000000 \<le> c + ?step" using "1.prems"(2) st by linarith
      ultimately show ?thesis
        using "1.hyps"[OF conjI[OF st \<open>?cont\<close>] "1.prems"(1)] by simp
    next
      case False
      then have n: "addMinutes (Some c) (SLOT_INTERVAL_MIN R) = None"
        by (simp add: addMinutes_Some timeClip_def)
      from False "1.prems" st have "8640000000000000 < c + ?step"
        by (simp add: inDateRange_def)
      with "1.prems"(1) have "\<not> c + ?step < endUtc" by linarith
      then have "gridFrom ?step endUtc durationMin (c + ?step) = []"
        by (subst gridFrom.simps) simp
      then show ?thesis by (simp add: n scan_None)
    qed
    show ?thesis
      unfolding g
      apply (subst scan.simps)
      using True
      by (simp add: Let_def nxt accepted_def)
  qed
qed


text \<open>
  The grid: its members are the start plus multiples of the step, below the end, in
  ascending order; it holds every such position whose slot ends at or before the end.
\<close>

lemma gridFrom_elem:
  "x \<in> set (gridFrom s e d c) \<Longrightarrow>
     c \<le> x \<and> x < e \<and> (\<exists>k::nat. x = c + int k * s)
     \<and> \<not> date_gt (addMinutes (Some x) d) (Some e)"
proof (induction s e d c rule: gridFrom.induct)
  case (1 step endUtc durationMin c)
  let ?cont = "0 < step \<and> c < endUtc
               \<and> \<not> date_gt (addMinutes (Some c) durationMin) (Some endUtc)"
  show ?case
  proof (cases ?cont)
    case False
    then have "gridFrom step endUtc durationMin c = []" by (subst gridFrom.simps) auto
    with "1.prems" show ?thesis by simp
  next
    case True
    with "1.prems" have "x = c \<or> x \<in> set (gridFrom step endUtc durationMin (c + step))"
      by (subst (asm) gridFrom.simps) simp
    then show ?thesis
    proof
      assume xc: "x = c"
      then have "x = c + int 0 * step" by simp
      with True xc show ?thesis by blast
    next
      assume "x \<in> set (gridFrom step endUtc durationMin (c + step))"
      from "1.IH"[OF True this] obtain k :: nat where
        k: "c + step \<le> x" "x < endUtc" "x = c + step + int k * step"
        and nb: "\<not> date_gt (addMinutes (Some x) durationMin) (Some endUtc)" by blast
      have "x = c + int (Suc k) * step" using k(3) by (simp add: algebra_simps)
      moreover have "c \<le> x" using k(1) True by linarith
      ultimately show ?thesis using k(2) nb by blast
    qed
  qed
qed

lemma gridFrom_mem:
  "0 < s \<Longrightarrow> c + int k * s < e \<Longrightarrow> c + int k * s + d * 60000 \<le> e \<Longrightarrow>
     c + int k * s \<in> set (gridFrom s e d c)"
proof (induction k arbitrary: c)
  case 0
  then have "c < e" and "\<not> date_gt (addMinutes (Some c) d) (Some e)"
    by (simp_all add: no_break)
  with 0 show ?case by (subst gridFrom.simps) simp
next
  case (Suc k)
  have nn: "0 \<le> int k * s" using Suc.prems(1) by simp
  have eq: "c + int (Suc k) * s = (c + s) + int k * s" by (simp add: algebra_simps)
  have lt: "c < e" using Suc.prems nn eq by linarith
  have "c + d * 60000 \<le> e" using Suc.prems nn eq by linarith
  then have nb: "\<not> date_gt (addMinutes (Some c) d) (Some e)" by (rule no_break)
  have a: "(c + s) + int k * s < e" using Suc.prems(2) eq by simp
  have b: "(c + s) + int k * s + d * 60000 \<le> e" using Suc.prems(3) eq by simp
  from Suc.IH[OF Suc.prems(1) a b]
  have "c + int (Suc k) * s \<in> set (gridFrom s e d (c + s))" by (simp only: eq)
  then show ?case using lt nb Suc.prems(1) by (subst gridFrom.simps) simp
qed

lemma gridFrom_sorted: "sorted_wrt (<) (gridFrom s e d c)"
proof (induction s e d c rule: gridFrom.induct)
  case (1 step endUtc durationMin c)
  let ?cont = "0 < step \<and> c < endUtc
               \<and> \<not> date_gt (addMinutes (Some c) durationMin) (Some endUtc)"
  show ?case
  proof (cases ?cont)
    case False
    then have "gridFrom step endUtc durationMin c = []" by (subst gridFrom.simps) auto
    then show ?thesis by simp
  next
    case True
    have lt: "\<forall>x\<in>set (gridFrom step endUtc durationMin (c + step)). c < x"
    proof
      fix x assume "x \<in> set (gridFrom step endUtc durationMin (c + step))"
      from gridFrom_elem[OF this] have "c + step \<le> x" by simp
      with True show "c < x" by linarith
    qed
    have unf: "gridFrom step endUtc durationMin c =
               c # gridFrom step endUtc durationMin (c + step)"
      using True by (subst gridFrom.simps) simp
    show ?thesis unfolding unf using "1.IH"[OF True] lt by simp
  qed
qed

text \<open>
  With a positive slot interval \<open>computeAvailability\<close> returns, and what it returns are the
  grid positions of the window that pass the three checks, in grid order.
\<close>

lemma computeAvailability_grid:
  assumes "zonedTimeToUtc L (workStartLocal L R date) tz = Some ws"
    and "zonedTimeToUtc L (workEndLocal L R date) tz = Some we"
    and "freeBusy ws we = Inr busyList"
    and "0 < SLOT_INTERVAL_MIN R"
  shows "computeAvailability L R nowUtc freeBusy date durationMin tz =
         Some (Inr (filter (accepted L R tz durationMin nowUtc busyList)
                 (gridFrom (SLOT_INTERVAL_MIN R * 60000) we durationMin ws)))"
proof -
  from zonedTimeToUtc_range[OF assms(1)] have a: "- 8640000000000000 \<le> ws"
    by (simp add: inDateRange_def)
  from zonedTimeToUtc_range[OF assms(2)] have b: "we \<le> 8640000000000000"
    by (simp add: inDateRange_def)
  show ?thesis
    using assms(1,2,3)
    by (simp add: computeAvailability_def toISOString_def scan_grid[OF assms(4) b a])
qed

lemma starts_elem:
  assumes "c \<in> set (filter P (gridFrom step we d ws))"
  shows "(\<exists>k::nat. c = ws + int k * step) \<and> ws \<le> c \<and> c < we
         \<and> \<not> date_gt (addMinutes (Some c) d) (Some we) \<and> P c"
proof -
  from assms have g: "c \<in> set (gridFrom step we d ws)" and p: "P c" by simp_all
  from gridFrom_elem[OF g] p show ?thesis by blast
qed

lemma starts_mem:
  assumes "0 < step" and "\<exists>k::nat. c = ws + int k * step" and "c < we"
    and "c + d * 60000 \<le> we" and "P c"
  shows "c \<in> set (filter P (gridFrom step we d ws))"
proof -
  from assms(2) obtain k :: nat where k: "c = ws + int k * step" by blast
  from gridFrom_mem[OF assms(1), of ws k we d] assms(3,4) k
  have "c \<in> set (gridFrom step we d ws)" by simp
  with assms(5) show ?thesis by simp
qed

text \<open>
  The busy test in numbers. When it is true, some busy interval overlaps the padded slot
  as computed exactly; the converse needs the three dates of the padded slot to be valid.
\<close>

lemma overlaps_arith:
  assumes "overlaps L R busyList c (addMinutes (Some c) d)"
  shows "\<exists>b\<in>set busyList. \<exists>bs be. new_Date L (busy_start b) = Some bs
           \<and> new_Date L (busy_end b) = Some be
           \<and> c - BUFFER_MIN R * 60000 < be \<and> bs < c + d * 60000 + BUFFER_MIN R * 60000"
proof -
  from assms obtain b where b: "b \<in> set busyList"
    and l: "date_lt (addMinutes (Some c) (- BUFFER_MIN R)) (new_Date L (busy_end b))"
    and g: "date_gt (addMinutes (addMinutes (Some c) d) (BUFFER_MIN R)) (new_Date L (busy_start b))"
    by (auto simp: overlaps_def list_ex_iff Let_def)
  from l obtain be where be: "new_Date L (busy_end b) = Some be"
    and l': "c - BUFFER_MIN R * 60000 < be"
    by (auto simp: date_lt_def addMinutes_def timeClip_def split: option.splits if_splits)
  from g obtain bs where bs: "new_Date L (busy_start b) = Some bs"
    and g': "bs < c + d * 60000 + BUFFER_MIN R * 60000"
    by (auto simp: date_gt_def addMinutes_def timeClip_def split: option.splits if_splits)
  from b be bs l' g' show ?thesis by blast
qed

lemma overlaps_valid:
  assumes "b \<in> set busyList"
    and "new_Date L (busy_start b) = Some bs" and "new_Date L (busy_end b) = Some be"
    and "inDateRange (c - BUFFER_MIN R * 60000)"
    and "inDateRange (c + d * 60000)"
    and "inDateRange (c + d * 60000 + BUFFER_MIN R * 60000)"
    and "c - BUFFER_MIN R * 60000 < be" and "bs < c + d * 60000 + BUFFER_MIN R * 60000"
  shows "overlaps L R busyList c (addMinutes (Some c) d)"
  unfolding overlaps_def list_ex_iff Let_def
  using assms
  by (intro bexI[of _ b]) (simp_all add: addMinutes_def timeClip_def date_lt_def date_gt_def)

section \<open>The window the builder gives\<close>

text \<open>
  On a server running in UTC, the date 2025-08-11 in the zone America/Chicago gives the
  window from 14:00Z to 22:00Z.
\<close>

lemma utc_monday_window:
  "zonedTimeToUtc serverUTC (workStartLocal serverUTC defaultRules ''2025-08-11'')
     ''America/Chicago'' = Some 1754920800000"
  "zonedTimeToUtc serverUTC (workEndLocal serverUTC defaultRules ''2025-08-11'')
     ''America/Chicago'' = Some 1754949600000"
  by code_simp+

lemma defaultRules_interval: "0 < SLOT_INTERVAL_MIN defaultRules"
  by (simp add: defaultRules_def)






text \<open>
  The setters clear hours, minutes and seconds, not milliseconds: a date string with a
  time of day keeps its milliseconds in the window.
\<close>

lemma utc_window_of_date_time:
  "zonedTimeToUtc serverUTC (workStartLocal serverUTC defaultRules ''2025-08-11T23:59:59.999'')
     ''America/Chicago'' = Some 1754920800999"
  by code_simp

section \<open>Claims about the slot scan\<close>

text \<open>
  C1. The claim fails for a duration that \<open>addMinutes\<close> cannot add. With \<open>durationMin\<close> =
  144000000000 (the route takes it from \<open>?duration=144000000000\<close>) the slot end is an
  Invalid Date, so the \<open>break\<close> test and the busy test are both false, and all sixteen grid
  positions of Monday 2025-08-11 are returned. One of them is 15:30Z, inside the meeting
  from 15:00Z to 15:50Z: its padded occupancy, computed exactly, overlaps the meeting.
\<close>

theorem computeAvailability_overflow_inside_meeting:
  "computeAvailability serverUTC defaultRules 1754000000000 oneMeeting ''2025-08-11''
     144000000000 ''America/Chicago'' =
   Some (Inr [1754920800000, 1754922600000, 1754924400000, 1754926200000,
              1754928000000, 1754929800000, 1754931600000, 1754933400000,
              1754935200000, 1754937000000, 1754938800000, 1754940600000,
              1754942400000, 1754944200000, 1754946000000, 1754947800000])
   \<and> new_Date serverUTC ''2025-08-11T15:00:00Z'' = Some 1754924400000
   \<and> new_Date serverUTC ''2025-08-11T15:50:00Z'' = Some 1754927400000
   \<and> 1754926200000 - BUFFER_MIN defaultRules * 60000 < (1754927400000::int)
   \<and> (1754924400000::int)
        < 1754926200000 + 144000000000 * 60000 + BUFFER_MIN defaultRules * 60000"
  by code_simp

text \<open>
  C1, as the code has it. The busy list may be in any order and its intervals may
  overlap. Every candidate \<open>c\<close> that \<open>computeAvailability\<close> returns and whose padded slot consists
  of valid dates (\<open>c\<close> minus the buffer, \<open>c\<close> plus the duration, and that plus the buffer are
  time values in range) has a padded occupancy that meets no fetched busy interval: each
  busy interval ends at or before the padded start, or starts at or after the padded end.
  Touching is enough to pass: a grid position of the window that passes the notice and
  work-hour checks, and whose padded occupancy every busy interval at most touches, is
  returned.
\<close>

theorem computeAvailability_clear_of_busy:
  assumes ws: "zonedTimeToUtc L (workStartLocal L R date) tz = Some ws"
    and we: "zonedTimeToUtc L (workEndLocal L R date) tz = Some we"
    and fb: "freeBusy ws we = Inr busyList"
    and iv: "0 < SLOT_INTERVAL_MIN R"
  shows "\<exists>starts. computeAvailability L R nowUtc freeBusy date durationMin tz = Some (Inr starts)
     \<and> (\<forall>c\<in>set starts.
           inDateRange (c - BUFFER_MIN R * 60000)
           \<and> inDateRange (c + durationMin * 60000)
           \<and> inDateRange (c + durationMin * 60000 + BUFFER_MIN R * 60000) \<longrightarrow>
           (\<forall>b\<in>set busyList. \<forall>bs be.
              new_Date L (busy_start b) = Some bs \<and> new_Date L (busy_end b) = Some be \<longrightarrow>
              be \<le> c - BUFFER_MIN R * 60000
              \<or> c + durationMin * 60000 + BUFFER_MIN R * 60000 \<le> bs))
     \<and> (\<forall>c. (\<exists>k::nat. c = ws + int k * (SLOT_INTERVAL_MIN R * 60000))
           \<and> c < we \<and> c + durationMin * 60000 \<le> we
           \<and> nowUtc + MIN_NOTICE_MIN R * 60000 \<le> c
           \<and> withinWorkHours L R c tz
           \<and> (\<forall>b\<in>set busyList. \<forall>bs be.
                 new_Date L (busy_start b) = Some bs \<and> new_Date L (busy_end b) = Some be \<longrightarrow>
                 be \<le> c - BUFFER_MIN R * 60000
                 \<or> c + durationMin * 60000 + BUFFER_MIN R * 60000 \<le> bs)
           \<longrightarrow> c \<in> set starts)"
proof -
  let ?starts = "filter (accepted L R tz durationMin nowUtc busyList)
                   (gridFrom (SLOT_INTERVAL_MIN R * 60000) we durationMin ws)"
  have st: "0 < SLOT_INTERVAL_MIN R * 60000" using iv by simp
  have res: "computeAvailability L R nowUtc freeBusy date durationMin tz = Some (Inr ?starts)"
    by (rule computeAvailability_grid[where freeBusy = freeBusy, OF ws we fb iv])
  have free: "\<forall>c\<in>set ?starts.
           inDateRange (c - BUFFER_MIN R * 60000)
           \<and> inDateRange (c + durationMin * 60000)
           \<and> inDateRange (c + durationMin * 60000 + BUFFER_MIN R * 60000) \<longrightarrow>
           (\<forall>b\<in>set busyList. \<forall>bs be.
              new_Date L (busy_start b) = Some bs \<and> new_Date L (busy_end b) = Some be \<longrightarrow>
              be \<le> c - BUFFER_MIN R * 60000
              \<or> c + durationMin * 60000 + BUFFER_MIN R * 60000 \<le> bs)"
  proof (intro ballI allI impI)
    fix c b bs be
    assume c: "c \<in> set ?starts" and b: "b \<in> set busyList"
      and v: "inDateRange (c - BUFFER_MIN R * 60000)
           \<and> inDateRange (c + durationMin * 60000)
           \<and> inDateRange (c + durationMin * 60000 + BUFFER_MIN R * 60000)"
      and p: "new_Date L (busy_start b) = Some bs \<and> new_Date L (busy_end b) = Some be"
    from c have no: "\<not> overlaps L R busyList c (addMinutes (Some c) durationMin)"
      by (simp add: accepted_def)
    show "be \<le> c - BUFFER_MIN R * 60000
          \<or> c + durationMin * 60000 + BUFFER_MIN R * 60000 \<le> bs"
    proof (rule ccontr)
      assume "\<not> (be \<le> c - BUFFER_MIN R * 60000
                 \<or> c + durationMin * 60000 + BUFFER_MIN R * 60000 \<le> bs)"
      then have "c - BUFFER_MIN R * 60000 < be"
        and "bs < c + durationMin * 60000 + BUFFER_MIN R * 60000" by simp_all
      with overlaps_valid[OF b] p v no show False by blast
    qed
  qed
  have touch: "\<forall>c. (\<exists>k::nat. c = ws + int k * (SLOT_INTERVAL_MIN R * 60000))
           \<and> c < we \<and> c + durationMin * 60000 \<le> we
           \<and> nowUtc + MIN_NOTICE_MIN R * 60000 \<le> c
           \<and> withinWorkHours L R c tz
           \<and> (\<forall>b\<in>set busyList. \<forall>bs be.
                 new_Date L (busy_start b) = Some bs \<and> new_Date L (busy_end b) = Some be \<longrightarrow>
                 be \<le> c - BUFFER_MIN R * 60000
                 \<or> c + durationMin * 60000 + BUFFER_MIN R * 60000 \<le> bs)
           \<longrightarrow> c \<in> set ?starts"
  proof (intro allI impI)
    fix c
    assume h: "(\<exists>k::nat. c = ws + int k * (SLOT_INTERVAL_MIN R * 60000))
           \<and> c < we \<and> c + durationMin * 60000 \<le> we
           \<and> nowUtc + MIN_NOTICE_MIN R * 60000 \<le> c
           \<and> withinWorkHours L R c tz
           \<and> (\<forall>b\<in>set busyList. \<forall>bs be.
                 new_Date L (busy_start b) = Some bs \<and> new_Date L (busy_end b) = Some be \<longrightarrow>
                 be \<le> c - BUFFER_MIN R * 60000
                 \<or> c + durationMin * 60000 + BUFFER_MIN R * 60000 \<le> bs)"
    have no: "\<not> overlaps L R busyList c (addMinutes (Some c) durationMin)"
    proof
      assume "overlaps L R busyList c (addMinutes (Some c) durationMin)"
      from overlaps_arith[OF this] h show False by fastforce
    qed
    from h have "\<not> date_gt (addMinutes (Some nowUtc) (MIN_NOTICE_MIN R)) (Some c)"
      by (simp add: no_break)
    with no h have "accepted L R tz durationMin nowUtc busyList c"
      by (simp add: accepted_def)
    with h starts_mem[OF st] show "c \<in> set ?starts" by blast
  qed
  from res free touch show ?thesis by blast
qed

theorem computeAvailability_clear_of_busy_witness:
  "zonedTimeToUtc serverUTC (workStartLocal serverUTC defaultRules ''2025-08-11'')
     ''America/Chicago'' = Some 1754920800000
   \<and> zonedTimeToUtc serverUTC (workEndLocal serverUTC defaultRules ''2025-08-11'')
     ''America/Chicago'' = Some 1754949600000
   \<and> oneMeeting 1754920800000 1754949600000 =
       Inr [\<lparr> busy_start = ''2025-08-11T15:00:00Z'', busy_end = ''2025-08-11T15:50:00Z'' \<rparr>]
   \<and> 0 < SLOT_INTERVAL_MIN defaultRules
   \<and> (\<exists>starts. computeAvailability serverUTC defaultRules 1754000000000 oneMeeting
          ''2025-08-11'' 30 ''America/Chicago'' = Some (Inr starts)
        \<and> 1754928000000 \<in> set starts \<and> 1754926200000 \<notin> set starts)"
proof -
  let ?m = "\<lparr> busy_start = ''2025-08-11T15:00:00Z'', busy_end = ''2025-08-11T15:50:00Z'' \<rparr>"
  have fb: "oneMeeting 1754920800000 1754949600000 = Inr [?m]"
    by (simp add: oneMeeting_def)
  have bs: "new_Date serverUTC (busy_start ?m) = Some 1754924400000"
    and be: "new_Date serverUTC (busy_end ?m) = Some 1754927400000"
    by code_simp+
  have wh: "withinWorkHours serverUTC defaultRules 1754928000000 ''America/Chicago''"
    by code_simp
  have bf: "BUFFER_MIN defaultRules = 10" and si: "SLOT_INTERVAL_MIN defaultRules = 30"
    and mn: "MIN_NOTICE_MIN defaultRules = 120"
    by (simp_all add: defaultRules_def)
  from computeAvailability_clear_of_busy[where freeBusy = oneMeeting
        and nowUtc = 1754000000000 and durationMin = 30,
        OF utc_monday_window fb defaultRules_interval]
  obtain starts where
    r: "computeAvailability serverUTC defaultRules 1754000000000 oneMeeting
          ''2025-08-11'' 30 ''America/Chicago'' = Some (Inr starts)"
    and free: "\<forall>c\<in>set starts.
           inDateRange (c - BUFFER_MIN defaultRules * 60000)
           \<and> inDateRange (c + 30 * 60000)
           \<and> inDateRange (c + 30 * 60000 + BUFFER_MIN defaultRules * 60000) \<longrightarrow>
           (\<forall>b\<in>set [?m]. \<forall>bs be.
              new_Date serverUTC (busy_start b) = Some bs
              \<and> new_Date serverUTC (busy_end b) = Some be \<longrightarrow>
              be \<le> c - BUFFER_MIN defaultRules * 60000
              \<or> c + 30 * 60000 + BUFFER_MIN defaultRules * 60000 \<le> bs)"
    and touch: "\<forall>c. (\<exists>k::nat. c = 1754920800000 + int k * (SLOT_INTERVAL_MIN defaultRules * 60000))
           \<and> c < 1754949600000 \<and> c + 30 * 60000 \<le> 1754949600000
           \<and> 1754000000000 + MIN_NOTICE_MIN defaultRules * 60000 \<le> c
           \<and> withinWorkHours serverUTC defaultRules c ''America/Chicago''
           \<and> (\<forall>b\<in>set [?m]. \<forall>bs be.
                 new_Date serverUTC (busy_start b) = Some bs
                 \<and> new_Date serverUTC (busy_end b) = Some be \<longrightarrow>
                 be \<le> c - BUFFER_MIN defaultRules * 60000
                 \<or> c + 30 * 60000 + BUFFER_MIN defaultRules * 60000 \<le> bs)
           \<longrightarrow> c \<in> set starts"
    by blast
  have g: "\<exists>k::nat. (1754928000000::int) = 1754920800000 + int k * (SLOT_INTERVAL_MIN defaultRules * 60000)"
    by (rule exI[of _ 4]) (simp add: si)
  have t: "\<forall>b\<in>set [?m]. \<forall>bs' be'.
                 new_Date serverUTC (busy_start b) = Some bs'
                 \<and> new_Date serverUTC (busy_end b) = Some be' \<longrightarrow>
                 be' \<le> 1754928000000 - BUFFER_MIN defaultRules * 60000
                 \<or> 1754928000000 + 30 * 60000 + BUFFER_MIN defaultRules * 60000 \<le> bs'"
    using bs be by (simp add: bf)
  have inn: "1754928000000 \<in> set starts"
    using touch[rule_format, of 1754928000000] g t wh by (simp add: mn)
  have out: "1754926200000 \<notin> set starts"
  proof
    assume a: "1754926200000 \<in> set starts"
    have v: "inDateRange (1754926200000 - BUFFER_MIN defaultRules * 60000)
           \<and> inDateRange (1754926200000 + 30 * 60000)
           \<and> inDateRange (1754926200000 + 30 * 60000 + BUFFER_MIN defaultRules * 60000)"
      by (simp add: inDateRange_def bf)
    from free[rule_format, OF a v, of ?m 1754924400000 1754927400000] bs be
    have "(1754927400000::int) \<le> 1754926200000 - BUFFER_MIN defaultRules * 60000
           \<or> (1754926200000::int) + 30 * 60000 + BUFFER_MIN defaultRules * 60000 \<le> 1754924400000"
      by simp
    then show False by (simp add: bf)
  qed
  from utc_monday_window fb defaultRules_interval r inn out show ?thesis by blast
qed




text \<open>
  C3. The sequence \<open>computeAvailability\<close> returns is strictly ascending, and each of its
  instants is the window start plus a natural multiple of the slot interval.
\<close>

theorem computeAvailability_ascending_on_grid:
  assumes ws: "zonedTimeToUtc L (workStartLocal L R date) tz = Some ws"
    and we: "zonedTimeToUtc L (workEndLocal L R date) tz = Some we"
    and fb: "freeBusy ws we = Inr busyList"
    and iv: "0 < SLOT_INTERVAL_MIN R"
  shows "\<exists>starts. computeAvailability L R nowUtc freeBusy date durationMin tz = Some (Inr starts)
     \<and> sorted_wrt (<) starts
     \<and> (\<forall>s\<in>set starts. \<exists>k::nat. s = ws + int k * (SLOT_INTERVAL_MIN R * 60000))"
proof -
  let ?starts = "filter (accepted L R tz durationMin nowUtc busyList)
                   (gridFrom (SLOT_INTERVAL_MIN R * 60000) we durationMin ws)"
  have res: "computeAvailability L R nowUtc freeBusy date durationMin tz = Some (Inr ?starts)"
    by (rule computeAvailability_grid[where freeBusy = freeBusy, OF ws we fb iv])
  have asc: "sorted_wrt (<) ?starts"
    by (rule sorted_wrt_filter[OF gridFrom_sorted])
  have grid: "\<forall>s\<in>set ?starts. \<exists>k::nat. s = ws + int k * (SLOT_INTERVAL_MIN R * 60000)"
    using starts_elem by blast
  from res asc grid show ?thesis by blast
qed

theorem computeAvailability_ascending_on_grid_witness:
  "zonedTimeToUtc serverUTC (workStartLocal serverUTC defaultRules ''2025-08-11'')
     ''America/Chicago'' = Some 1754920800000
   \<and> zonedTimeToUtc serverUTC (workEndLocal serverUTC defaultRules ''2025-08-11'')
     ''America/Chicago'' = Some 1754949600000
   \<and> oneMeeting 1754920800000 1754949600000 =
       Inr [\<lparr> busy_start = ''2025-08-11T15:00:00Z'', busy_end = ''2025-08-11T15:50:00Z'' \<rparr>]
   \<and> 0 < SLOT_INTERVAL_MIN defaultRules
   \<and> computeAvailability serverUTC defaultRules 1754000000000 oneMeeting
          ''2025-08-11'' 330 ''America/Chicago'' = Some (Inr [1754928000000, 1754929800000])
   \<and> sorted_wrt (<) [1754928000000, 1754929800000::int]"
proof -
  let ?m = "\<lparr> busy_start = ''2025-08-11T15:00:00Z'', busy_end = ''2025-08-11T15:50:00Z'' \<rparr>"
  have fb: "oneMeeting 1754920800000 1754949600000 = Inr [?m]"
    by (simp add: oneMeeting_def)
  have ev: "computeAvailability serverUTC defaultRules 1754000000000 oneMeeting
          ''2025-08-11'' 330 ''America/Chicago'' = Some (Inr [1754928000000, 1754929800000])"
    by code_simp
  from computeAvailability_ascending_on_grid[where freeBusy = oneMeeting
        and nowUtc = 1754000000000 and durationMin = 330,
        OF utc_monday_window fb defaultRules_interval]
  have "sorted_wrt (<) [1754928000000, 1754929800000::int]"
    unfolding ev by blast
  with utc_monday_window fb defaultRules_interval ev show ?thesis by blast
qed



text \<open>
  Every candidate \<open>computeAvailability\<close> returns has passed \<open>withinWorkHours\<close>: in the
  request zone its weekday is one of \<open>WORK_DAYS\<close> and its hour is at least
  \<open>WORK_START_HOUR\<close> and less than \<open>WORK_END_HOUR\<close>.
\<close>

lemma computeAvailability_emits_withinWorkHours:
  assumes ws: "zonedTimeToUtc L (workStartLocal L R date) tz = Some ws"
    and we: "zonedTimeToUtc L (workEndLocal L R date) tz = Some we"
    and fb: "freeBusy ws we = Inr busyList"
    and iv: "0 < SLOT_INTERVAL_MIN R"
  shows "\<exists>starts. computeAvailability L R nowUtc freeBusy date durationMin tz = Some (Inr starts)
     \<and> (\<forall>s\<in>set starts. \<exists>local. utcToZonedTime L s tz = Some local
           \<and> local_getDay L local \<in> set (WORK_DAYS R)
           \<and> WORK_START_HOUR R \<le> local_getHours L local
           \<and> local_getHours L local < WORK_END_HOUR R)"
proof -
  let ?starts = "filter (accepted L R tz durationMin nowUtc busyList)
                   (gridFrom (SLOT_INTERVAL_MIN R * 60000) we durationMin ws)"
  have res: "computeAvailability L R nowUtc freeBusy date durationMin tz = Some (Inr ?starts)"
    by (rule computeAvailability_grid[where freeBusy = freeBusy, OF ws we fb iv])
  have "\<forall>s\<in>set ?starts. withinWorkHours L R s tz"
    by (simp add: accepted_def)
  then have "\<forall>s\<in>set ?starts. \<exists>local. utcToZonedTime L s tz = Some local
           \<and> local_getDay L local \<in> set (WORK_DAYS R)
           \<and> WORK_START_HOUR R \<le> local_getHours L local
           \<and> local_getHours L local < WORK_END_HOUR R"
    by (auto simp: withinWorkHours_def Let_def split: option.splits if_splits)
  with res show ?thesis by blast
qed

text \<open>
  C5. Each returned candidate is on a work day and in the work hours of the request
  zone (the lemma above), yet a date outside the work days need not give the empty
  sequence. \<open>new Date(date)\<close> reads the date-only string as midnight UTC, and \<open>setHours\<close>
  then works on the wall clock of the server process. On a server whose process zone is
  west of UTC that wall clock still shows the day before, so the window is built for the
  day before. For Saturday 2025-08-09, with a free calendar, a server running in Chicago
  returns the sixteen slots of Friday 2025-08-08 (14:00Z to 21:30Z); a server running in
  UTC returns the empty sequence. \<open>normalizeRange\<close> builds its local dates from
  \<open>`${start}T00:00:00`\<close>, which \<open>new Date\<close> reads as local time, and does not lose the day.
\<close>

theorem computeAvailability_saturday_chicago_server:
  "new_Date serverChicago ''2025-08-09'' = Some 1754697600000
   \<and> (1754697600000 div 86400000 + 4) mod 7 = (6::int)
   \<and> 6 \<notin> set (WORK_DAYS defaultRules)
   \<and> computeAvailability serverChicago defaultRules 1754000000000 noBusy ''2025-08-09'' 30
        ''America/Chicago'' =
      Some (Inr [1754661600000, 1754663400000, 1754665200000, 1754667000000,
                 1754668800000, 1754670600000, 1754672400000, 1754674200000,
                 1754676000000, 1754677800000, 1754679600000, 1754681400000,
                 1754683200000, 1754685000000, 1754686800000, 1754688600000])
   \<and> computeAvailability serverUTC defaultRules 1754000000000 noBusy ''2025-08-09'' 30
        ''America/Chicago'' = Some (Inr [])"
  by code_simp

text \<open>
  C6. \<open>computeAvailability\<close> has no check of \<open>durationMin\<close>. Called for Monday 2025-08-11
  at 19:00Z with a duration of 0, or of -30, it returns the candidates 21:00Z and 21:30Z;
  it does not fail.
\<close>

theorem computeAvailability_zero_duration_returns:
  "computeAvailability serverUTC defaultRules 1754938800000 noBusy ''2025-08-11'' 0
     ''America/Chicago'' = Some (Inr [1754946000000, 1754947800000])
   \<and> computeAvailability serverUTC defaultRules 1754938800000 noBusy ''2025-08-11'' (- 30)
     ''America/Chicago'' = Some (Inr [1754946000000, 1754947800000])"
  by code_simp

text \<open>
  C6, as the code has it. With \<open>durationMin \<le> 0\<close> (the date valid, the provider answering,
  a positive slot interval) \<open>computeAvailability\<close> does not fail: it returns the grid
  positions before the window end that pass the notice, buffer and work-hour tests of the
  source, and nothing else.
\<close>

theorem computeAvailability_nonpositive_duration:
  assumes ws: "zonedTimeToUtc L (workStartLocal L R date) tz = Some ws"
    and we: "zonedTimeToUtc L (workEndLocal L R date) tz = Some we"
    and fb: "freeBusy ws we = Inr busyList"
    and iv: "0 < SLOT_INTERVAL_MIN R"
    and dur: "durationMin \<le> 0"
  shows "\<exists>starts. computeAvailability L R nowUtc freeBusy date durationMin tz = Some (Inr starts)
     \<and> (\<forall>c. c \<in> set starts \<longleftrightarrow>
           (\<exists>k::nat. c = ws + int k * (SLOT_INTERVAL_MIN R * 60000))
           \<and> c < we
           \<and> \<not> date_gt (addMinutes (Some nowUtc) (MIN_NOTICE_MIN R)) (Some c)
           \<and> \<not> overlaps L R busyList c (addMinutes (Some c) durationMin)
           \<and> withinWorkHours L R c tz)"
proof -
  let ?starts = "filter (accepted L R tz durationMin nowUtc busyList)
                   (gridFrom (SLOT_INTERVAL_MIN R * 60000) we durationMin ws)"
  have st: "0 < SLOT_INTERVAL_MIN R * 60000" using iv by simp
  have res: "computeAvailability L R nowUtc freeBusy date durationMin tz = Some (Inr ?starts)"
    by (rule computeAvailability_grid[where freeBusy = freeBusy, OF ws we fb iv])
  have d: "durationMin * 60000 \<le> 0" using dur by simp
  have "\<forall>c. c \<in> set ?starts \<longleftrightarrow>
           (\<exists>k::nat. c = ws + int k * (SLOT_INTERVAL_MIN R * 60000))
           \<and> c < we
           \<and> \<not> date_gt (addMinutes (Some nowUtc) (MIN_NOTICE_MIN R)) (Some c)
           \<and> \<not> overlaps L R busyList c (addMinutes (Some c) durationMin)
           \<and> withinWorkHours L R c tz"
  proof (intro allI iffI)
    fix c assume "c \<in> set ?starts"
    from starts_elem[OF this]
    show "(\<exists>k::nat. c = ws + int k * (SLOT_INTERVAL_MIN R * 60000))
           \<and> c < we
           \<and> \<not> date_gt (addMinutes (Some nowUtc) (MIN_NOTICE_MIN R)) (Some c)
           \<and> \<not> overlaps L R busyList c (addMinutes (Some c) durationMin)
           \<and> withinWorkHours L R c tz"
      by (simp add: accepted_def)
  next
    fix c
    assume h: "(\<exists>k::nat. c = ws + int k * (SLOT_INTERVAL_MIN R * 60000))
           \<and> c < we
           \<and> \<not> date_gt (addMinutes (Some nowUtc) (MIN_NOTICE_MIN R)) (Some c)
           \<and> \<not> overlaps L R busyList c (addMinutes (Some c) durationMin)
           \<and> withinWorkHours L R c tz"
    then have "c + durationMin * 60000 \<le> we" using d by linarith
    moreover from h have "accepted L R tz durationMin nowUtc busyList c"
      by (simp add: accepted_def)
    ultimately show "c \<in> set ?starts" using h starts_mem[OF st] by blast
  qed
  with res show ?thesis by blast
qed

theorem computeAvailability_nonpositive_duration_witness:
  "zonedTimeToUtc serverUTC (workStartLocal serverUTC defaultRules ''2025-08-11'')
     ''America/Chicago'' = Some 1754920800000
   \<and> zonedTimeToUtc serverUTC (workEndLocal serverUTC defaultRules ''2025-08-11'')
     ''America/Chicago'' = Some 1754949600000
   \<and> noBusy 1754920800000 1754949600000 = Inr []
   \<and> 0 < SLOT_INTERVAL_MIN defaultRules
   \<and> (- 30 :: int) \<le> 0
   \<and> (\<exists>starts. computeAvailability serverUTC defaultRules 1754938800000 noBusy
          ''2025-08-11'' (- 30) ''America/Chicago'' = Some (Inr starts)
        \<and> 1754947800000 \<in> set starts)"
proof -
  have fb: "noBusy 1754920800000 1754949600000 = Inr []"
    by (simp add: noBusy_def)
  have dur: "(- 30 :: int) \<le> 0" by simp
  from computeAvailability_nonpositive_duration[where freeBusy = noBusy
        and nowUtc = 1754938800000 and durationMin = "- 30",
        OF utc_monday_window fb defaultRules_interval dur]
  obtain starts where
    r: "computeAvailability serverUTC defaultRules 1754938800000 noBusy
          ''2025-08-11'' (- 30) ''America/Chicago'' = Some (Inr starts)"
    and m: "\<forall>c. c \<in> set starts \<longleftrightarrow>
           (\<exists>k::nat. c = 1754920800000 + int k * (SLOT_INTERVAL_MIN defaultRules * 60000))
           \<and> c < 1754949600000
           \<and> \<not> date_gt (addMinutes (Some 1754938800000) (MIN_NOTICE_MIN defaultRules)) (Some c)
           \<and> \<not> overlaps serverUTC defaultRules [] c (addMinutes (Some c) (- 30))
           \<and> withinWorkHours serverUTC defaultRules c ''America/Chicago''"
    by blast
  have g: "\<exists>k::nat. (1754947800000::int) =
             1754920800000 + int k * (SLOT_INTERVAL_MIN defaultRules * 60000)"
    by (rule exI[of _ 15]) (simp add: defaultRules_def)
  have nt: "\<not> date_gt (addMinutes (Some 1754938800000) (MIN_NOTICE_MIN defaultRules))
               (Some 1754947800000)"
    and ov: "\<not> overlaps serverUTC defaultRules [] 1754947800000
               (addMinutes (Some 1754947800000) (- 30))"
    and wh: "withinWorkHours serverUTC defaultRules 1754947800000 ''America/Chicago''"
    by code_simp+
  have "1754947800000 \<in> set starts"
    using m[rule_format, of 1754947800000] g nt ov wh by simp
  with utc_monday_window fb defaultRules_interval r show ?thesis by simp
qed

text \<open>
  C7. A string that names no calendar day can still parse. April has thirty days, yet
  \<open>new Date('2025-04-31')\<close> in Node is 2025-05-01T00:00Z, and for that string
  \<open>computeAvailability\<close> returns the sixteen slots of Thursday 2025-05-01; it does not fail.
\<close>

theorem computeAvailability_rollover_date_accepted:
  "isDateOnly ''2025-04-31''
   \<and> daysInMonth 2025 4 = 30
   \<and> new_Date serverUTC ''2025-04-31'' = Some (daysFromCivil 2025 5 1 * 86400000)
   \<and> computeAvailability serverUTC defaultRules 1740000000000 noBusy ''2025-04-31'' 30
       ''America/Chicago'' =
     Some (Inr [1746108000000, 1746109800000, 1746111600000, 1746113400000,
                1746115200000, 1746117000000, 1746118800000, 1746120600000,
                1746122400000, 1746124200000, 1746126000000, 1746127800000,
                1746129600000, 1746131400000, 1746133200000, 1746135000000])"
  by code_simp

text \<open>
  C7, as the code has it. \<open>computeAvailability\<close> has no check of the date of its own; it
  fails through \<open>new Date\<close>. When \<open>new Date(date)\<close> is an Invalid Date, the Invalid Date goes
  through the setters into the window builder, and \<open>toISOString\<close> throws on it. This is the
  failure the specification calls InvalidDate. It comes before the provider is called and
  before any candidate exists, so the outcome is the error alone, whatever the provider,
  the clock and the duration are.
\<close>

theorem computeAvailability_invalid_date:
  assumes "new_Date L date = None"
  shows "computeAvailability L R nowUtc freeBusy date durationMin tz = Some (Inl InvalidTimeValue)"
  using assms
  by (simp add: computeAvailability_def workStartLocal_def dayStartLocal_def setHours_def
      setMinutes_def setSeconds_def zonedTimeToUtc_def toISOString_def)

theorem computeAvailability_invalid_date_witness:
  "new_Date serverUTC ''next friday'' = None
   \<and> computeAvailability serverUTC defaultRules 1754000000000 oneMeeting ''next friday'' 30
        ''America/Chicago'' = Some (Inl InvalidTimeValue)"
proof -
  have h: "new_Date serverUTC ''next friday'' = None" by code_simp
  from h computeAvailability_invalid_date[OF h] show ?thesis by blast
qed

text \<open>
  C9. The result of \<open>computeAvailability\<close> is a function of the date, the duration, the
  zone, the rules, the clock reading and the provider's answer for the one window it asks
  about: two calls that agree on these return the same thing, also when the two providers
  differ on other windows.
\<close>

theorem computeAvailability_deterministic:
  assumes "\<And>tmin tmax.
      zonedTimeToUtc L (workStartLocal L R date) tz = Some tmin \<Longrightarrow>
      zonedTimeToUtc L (workEndLocal L R date) tz = Some tmax \<Longrightarrow>
      freeBusy1 tmin tmax = freeBusy2 tmin tmax"
  shows "computeAvailability L R nowUtc freeBusy1 date durationMin tz =
         computeAvailability L R nowUtc freeBusy2 date durationMin tz"
  using assms
  by (auto simp: computeAvailability_def toISOString_def split: option.splits sum.splits)

theorem computeAvailability_deterministic_witness:
  "oneMeeting 1754920800000 1754949600000 = mondayOnly 1754920800000 1754949600000
   \<and> oneMeeting 0 0 \<noteq> mondayOnly 0 0
   \<and> computeAvailability serverUTC defaultRules 1754000000000 oneMeeting ''2025-08-11'' 30
        ''America/Chicago'' =
     computeAvailability serverUTC defaultRules 1754000000000 mondayOnly ''2025-08-11'' 30
        ''America/Chicago''"
proof -
  have a: "oneMeeting 1754920800000 1754949600000 = mondayOnly 1754920800000 1754949600000"
    by (simp add: oneMeeting_def mondayOnly_def)
  have b: "oneMeeting 0 0 \<noteq> mondayOnly 0 0"
    by (simp add: oneMeeting_def mondayOnly_def)
  have c: "computeAvailability serverUTC defaultRules 1754000000000 oneMeeting ''2025-08-11'' 30
        ''America/Chicago'' =
     computeAvailability serverUTC defaultRules 1754000000000 mondayOnly ''2025-08-11'' 30
        ''America/Chicago''"
  proof (rule computeAvailability_deterministic)
    fix tmin tmax
    assume "zonedTimeToUtc serverUTC (workStartLocal serverUTC defaultRules ''2025-08-11'')
              ''America/Chicago'' = Some tmin"
      and "zonedTimeToUtc serverUTC (workEndLocal serverUTC defaultRules ''2025-08-11'')
              ''America/Chicago'' = Some tmax"
    then have "tmin = 1754920800000" and "tmax = 1754949600000"
      by (simp_all add: utc_monday_window)
    with a show "oneMeeting tmin tmax = mondayOnly tmin tmax" by simp
  qed
  from a b c show ?thesis by blast
qed

section \<open>Claims about the range normaliser\<close>

text \<open>
  Unless both inputs are bare calendar dates, \<open>normalizeRange\<close> takes the timestamp branch:
  it parses both with \<open>parseISO\<close> and looks at nothing but their validity.
\<close>

lemma normalizeRange_timestamp_branch:
  assumes "start \<noteq> []" and "end' \<noteq> []" and "\<not> (isDateOnly start \<and> isDateOnly end')"
  shows "normalizeRange L start end' tz =
         (if parseISO L start = None \<or> parseISO L end' = None then Inl InvalidStartEnd
          else Inr \<lparr>timeMin = the (parseISO L start), timeMax = the (parseISO L end')\<rparr>)"
  using assms
  by (cases "isDateOnly start"; cases "isDateOnly end'")
     (simp_all add: normalizeRange_def isValid_def Let_def)

text \<open>
  C8. \<open>normalizeRange\<close> does not compare the two parsed timestamps. A start of
  2025-08-12T17:00-05:00 with an end of 2025-08-11T09:00-05:00 gives a range whose
  \<open>timeMin\<close> is the later instant, and a start equal to the end gives a range of one
  instant; neither call fails.
\<close>

theorem normalizeRange_end_before_start:
  "\<not> isDateOnly ''2025-08-12T17:00:00-05:00''
   \<and> parseISO serverUTC ''2025-08-12T17:00:00-05:00'' = Some 1755036000000
   \<and> parseISO serverUTC ''2025-08-11T09:00:00-05:00'' = Some 1754920800000
   \<and> normalizeRange serverUTC ''2025-08-12T17:00:00-05:00'' ''2025-08-11T09:00:00-05:00''
        ''America/Chicago'' = Inr \<lparr>timeMin = 1755036000000, timeMax = 1754920800000\<rparr>
   \<and> normalizeRange serverUTC ''2025-08-11T09:00:00-05:00'' ''2025-08-11T09:00:00-05:00''
        ''America/Chicago'' = Inr \<lparr>timeMin = 1754920800000, timeMax = 1754920800000\<rparr>"
  by code_simp

text \<open>
  C8, as the code has it. When both inputs are present and at least one is not a bare
  calendar date, both are parsed as timestamps; \<open>normalizeRange\<close> fails (the error the
  specification calls InvalidRange) if either does not parse, and otherwise returns the
  two instants as \<open>timeMin\<close> and \<open>timeMax\<close>, in whatever order they are.
\<close>

theorem normalizeRange_timestamps:
  assumes "start \<noteq> []" and "end' \<noteq> []" and "\<not> (isDateOnly start \<and> isDateOnly end')"
  shows "(parseISO L start = None \<or> parseISO L end' = None \<longrightarrow>
            normalizeRange L start end' tz = Inl InvalidStartEnd)
     \<and> (\<forall>s e. parseISO L start = Some s \<and> parseISO L end' = Some e \<longrightarrow>
            normalizeRange L start end' tz = Inr \<lparr>timeMin = s, timeMax = e\<rparr>)"
  unfolding normalizeRange_timestamp_branch[OF assms] by auto

theorem normalizeRange_timestamps_witness:
  "''2025-08-12T17:00:00-05:00'' \<noteq> [] \<and> ''2025-08-11T09:00:00-05:00'' \<noteq> []
   \<and> \<not> (isDateOnly ''2025-08-12T17:00:00-05:00'' \<and> isDateOnly ''2025-08-11T09:00:00-05:00'')
   \<and> normalizeRange serverUTC ''2025-08-12T17:00:00-05:00'' ''2025-08-11T09:00:00-05:00''
        ''America/Chicago'' = Inr \<lparr>timeMin = 1755036000000, timeMax = 1754920800000\<rparr>
   \<and> normalizeRange serverUTC ''2025-08-12T17:00:00-05:00'' ''yesterday''
        ''America/Chicago'' = Inl InvalidStartEnd"
proof -
  have a: "''2025-08-12T17:00:00-05:00'' \<noteq> []" and b: "''2025-08-11T09:00:00-05:00'' \<noteq> []"
    and b': "''yesterday'' \<noteq> []"
    by simp_all
  have c: "\<not> (isDateOnly ''2025-08-12T17:00:00-05:00'' \<and> isDateOnly ''2025-08-11T09:00:00-05:00'')"
    and c': "\<not> (isDateOnly ''2025-08-12T17:00:00-05:00'' \<and> isDateOnly ''yesterday'')"
    by code_simp+
  have ps: "parseISO serverUTC ''2025-08-12T17:00:00-05:00'' = Some 1755036000000"
    and pe: "parseISO serverUTC ''2025-08-11T09:00:00-05:00'' = Some 1754920800000"
    and py: "parseISO serverUTC ''yesterday'' = None"
    by code_simp+
  from normalizeRange_timestamps[OF a b c, of serverUTC "''America/Chicago''"] ps pe
  have ok: "normalizeRange serverUTC ''2025-08-12T17:00:00-05:00'' ''2025-08-11T09:00:00-05:00''
        ''America/Chicago'' = Inr \<lparr>timeMin = 1755036000000, timeMax = 1754920800000\<rparr>"
    by blast
  from normalizeRange_timestamps[OF a b' c', of serverUTC "''America/Chicago''"] py
  have bad: "normalizeRange serverUTC ''2025-08-12T17:00:00-05:00'' ''yesterday''
        ''America/Chicago'' = Inl InvalidStartEnd"
    by blast
  from a b c ok bad show ?thesis by blast
qed

text \<open>
  C10. When exactly one of the two inputs has the shape \<open>YYYY-MM-DD\<close> (and the other
  is present), neither is read as a full day of the zone: both go through \<open>parseISO\<close>, the
  call fails only if one of them does not parse, it returns the two parsed instants when
  both do, and the result is the same for every zone argument and for every behaviour of
  \<open>zonedTimeToUtc\<close> and \<open>new Date\<close>.
\<close>

theorem normalizeRange_mixed_shapes:
  assumes "isDateOnly start \<noteq> isDateOnly end'" and "start \<noteq> []" and "end' \<noteq> []"
  shows "(parseISO L start = None \<or> parseISO L end' = None \<longrightarrow>
            normalizeRange L start end' tz = Inl InvalidStartEnd)
     \<and> (\<forall>s e. parseISO L start = Some s \<and> parseISO L end' = Some e \<longrightarrow>
            normalizeRange L start end' tz = Inr \<lparr>timeMin = s, timeMax = e\<rparr>)
     \<and> (\<forall>tz' f g. normalizeRange (L\<lparr>tz_zonedTimeToUtc := f, Date_parse := g\<rparr>) start end' tz' =
            normalizeRange L start end' tz)"
proof -
  from assms(1) have n: "\<not> (isDateOnly start \<and> isDateOnly end')" by auto
  have p: "\<And>f g s. parseISO (L\<lparr>tz_zonedTimeToUtc := f, Date_parse := g\<rparr>) s = parseISO L s"
    by (simp add: parseISO_def)
  show ?thesis
    unfolding normalizeRange_timestamp_branch[OF assms(2,3) n] p by auto
qed

theorem normalizeRange_mixed_shapes_witness:
  "isDateOnly ''2025-08-11'' \<noteq> isDateOnly ''2025-08-12T17:00:00-05:00''
   \<and> ''2025-08-11'' \<noteq> [] \<and> ''2025-08-12T17:00:00-05:00'' \<noteq> []
   \<and> normalizeRange serverUTC ''2025-08-11'' ''2025-08-12T17:00:00-05:00'' ''America/Chicago'' =
       Inr \<lparr>timeMin = 1754870400000, timeMax = 1755036000000\<rparr>
   \<and> normalizeRange serverUTC ''2025-08-11'' ''2025-08-12T17:00:00-05:00'' ''Asia/Tokyo'' =
       normalizeRange serverUTC ''2025-08-11'' ''2025-08-12T17:00:00-05:00'' ''America/Chicago''"
proof -
  have a: "isDateOnly ''2025-08-11'' \<noteq> isDateOnly ''2025-08-12T17:00:00-05:00''"
    by code_simp
  have b: "''2025-08-11'' \<noteq> []" and c: "''2025-08-12T17:00:00-05:00'' \<noteq> []"
    by simp_all
  have ps: "parseISO serverUTC ''2025-08-11'' = Some 1754870400000"
    and pe: "parseISO serverUTC ''2025-08-12T17:00:00-05:00'' = Some 1755036000000"
    by code_simp+
  note T = normalizeRange_mixed_shapes[OF a b c, of serverUTC "''America/Chicago''"]
  from T ps pe
  have ok: "normalizeRange serverUTC ''2025-08-11'' ''2025-08-12T17:00:00-05:00''
       ''America/Chicago'' = Inr \<lparr>timeMin = 1754870400000, timeMax = 1755036000000\<rparr>"
    by blast
  from T have "normalizeRange
       (serverUTC\<lparr>tz_zonedTimeToUtc := tz_zonedTimeToUtc serverUTC, Date_parse := Date_parse serverUTC\<rparr>)
       ''2025-08-11'' ''2025-08-12T17:00:00-05:00'' ''Asia/Tokyo'' =
       normalizeRange serverUTC ''2025-08-11'' ''2025-08-12T17:00:00-05:00'' ''America/Chicago''"
    by blast
  then have same: "normalizeRange serverUTC ''2025-08-11'' ''2025-08-12T17:00:00-05:00'' ''Asia/Tokyo'' =
       normalizeRange serverUTC ''2025-08-11'' ''2025-08-12T17:00:00-05:00'' ''America/Chicago''"
    by simp
  from a b c ok same show ?thesis by blast
qed

end
